theory Spec2Isabelle
  imports Complex_Main "HOL-Library.Log_Nat" "HOL-Library.Sublist" "HOL-Library.Multiset"
begin

section \<open>Python floats\<close>

text \<open>
  A Python \<open>float\<close> is an IEEE 754 binary64 number. Every float the buddy score touches is
  finite, so a float is modelled by the rational number it denotes, and every arithmetic
  operation is the exact operation followed by rounding to the nearest binary64 value, ties
  to even (\<open>fl\<close>). Subnormal numbers are modelled (the spacing stops shrinking below
  \<open>2 ^ -1022\<close>); overflow to infinity is not: the exponent is unbounded above, and no value
  of the score computation exceeds 100.
\<close>

type_synonym float = rat

definition pow2 :: "int \<Rightarrow> rat" where
  "pow2 e = (if 0 \<le> e then 2 ^ nat e else 1 / 2 ^ nat (- e))"

text \<open>The exponent \<open>e\<close> with \<open>2 ^ e \<le> |x| < 2 ^ (e + 1)\<close>, for \<open>x \<noteq> 0\<close>.\<close>

definition binade :: "rat \<Rightarrow> int" where
  "binade x = (case quotient_of \<bar>x\<bar> of (p, q) \<Rightarrow>
     (let e = bitlen p - bitlen q in if pow2 e \<le> \<bar>x\<bar> then e else e - 1))"

definition round_half_even :: "rat \<Rightarrow> int" where
  "round_half_even x = (let f = \<lfloor>x\<rfloor>; d = x - of_int f in
     if d < 1 / 2 then f else if 1 / 2 < d then f + 1 else if even f then f else f + 1)"

text \<open>Spacing of the binary64 numbers around \<open>x\<close>: 53 significant bits, least exponent -1022.\<close>

definition ulp :: "rat \<Rightarrow> rat" where
  "ulp x = pow2 (max (binade x) (- 1022) - 52)"

definition fl :: "rat \<Rightarrow> float" where
  "fl x = (if x = 0 then 0 else of_int (round_half_even (x / ulp x)) * ulp x)"

definition fadd :: "float \<Rightarrow> float \<Rightarrow> float" where
  "fadd a b = fl (a + b)"

definition fmul :: "float \<Rightarrow> float \<Rightarrow> float" where
  "fmul a b = fl (a * b)"

text \<open>\<open>m / n\<close> on two Python ints (true division, correctly rounded); \<open>n\<close> is not zero
  where the score computation divides.\<close>

definition int_truediv :: "int \<Rightarrow> int \<Rightarrow> float" where
  "int_truediv m n = fl (of_int m / of_int n)"

text \<open>
  \<open>round(x, 2)\<close> on a float: CPython converts \<open>x\<close> to the decimal string with two digits
  after the point that is nearest to the exact value of \<open>x\<close> (ties to even), and converts
  that string back to the nearest float.
\<close>

definition round2 :: "float \<Rightarrow> float" where
  "round2 x = fl (of_int (round_half_even (x * 100)) / 100)"

section \<open>Python strings\<close>

text \<open>
  Location strings are sequences of code points below 256, one \<open>char\<close> each.
  \<open>is_space\<close> is \<open>str.isspace\<close> on one such character, \<open>lower\<close> is \<open>str.lower\<close>,
  \<open>strip\<close> is \<open>str.strip()\<close>, \<open>split\<close> is \<open>str.split()\<close> (both without arguments),
  \<open>remove_char c\<close> is \<open>str.replace(c, '')\<close>, and Python's substring test \<open>a in b\<close> is
  \<open>sublist a b\<close>.
\<close>

definition is_space :: "char \<Rightarrow> bool" where
  "is_space c = (let n = (of_char c :: nat) in
     (9 \<le> n \<and> n \<le> 13) \<or> (28 \<le> n \<and> n \<le> 32) \<or> n = 133 \<or> n = 160)"

definition lower_char :: "char \<Rightarrow> char" where
  "lower_char c = (let n = (of_char c :: nat) in
     if (65 \<le> n \<and> n \<le> 90) \<or> (192 \<le> n \<and> n \<le> 222 \<and> n \<noteq> 215) then char_of (n + 32) else c)"

definition lower :: "string \<Rightarrow> string" where
  "lower s = map lower_char s"

definition strip :: "string \<Rightarrow> string" where
  "strip s = rev (dropWhile is_space (rev (dropWhile is_space s)))"

definition remove_char :: "char \<Rightarrow> string \<Rightarrow> string" where
  "remove_char c s = filter (\<lambda>d. d \<noteq> c) s"

fun split_acc :: "string \<Rightarrow> string \<Rightarrow> string list" where
  "split_acc w [] = (if w = [] then [] else [w])"
| "split_acc w (c # cs) =
     (if is_space c then (if w = [] then split_acc [] cs else w # split_acc [] cs)
      else split_acc (w @ [c]) cs)"

definition split :: "string \<Rightarrow> string list" where
  "split s = split_acc [] s"

section \<open>User profiles\<close>

type_synonym ident = int

text \<open>
  The value under a profile's \<open>"sports"\<close> or \<open>"goals"\<close> key when it is a list: a list of
  dictionaries, each modelled by what \<open>x.get("id")\<close> returns, or a list of hashable
  primitives (the ids themselves).
\<close>

datatype items = Dicts "ident option list" | Prims "ident list"

text \<open>
  A profile dictionary, by the keys the service reads. \<open>None\<close> stands for a missing key or
  the value \<open>None\<close>; for \<open>sports\<close> and \<open>goals\<close> also for a value that is not a list.
  \<open>event_count\<close> is the \<open>"_event_count"\<close> key the ranking attaches.
\<close>

record user =
  uid :: "ident option"
  sports :: "items option"
  goals :: "items option"
  location :: "string option"
  age :: "int option"
  is_active :: bool
  is_discoverable :: bool
  event_count :: "int option"

fun extract_ids :: "items \<Rightarrow> ident set" where
  "extract_ids (Dicts ds) = (if ds = [] then {} else set (List.map_filter (\<lambda>x. x) ds))"
| "extract_ids (Prims ps) = (if ps = [] then {} else set ps)"

text \<open>\<open>raw = user.get(key) or []\<close>, then \<open>_extract_ids(raw if isinstance(raw, list) else [])\<close>.\<close>

definition ids_of :: "items option \<Rightarrow> ident set" where
  "ids_of raw = (case raw of None \<Rightarrow> extract_ids (Prims []) | Some its \<Rightarrow> extract_ids its)"

section \<open>The repository\<close>

text \<open>
  The Supabase client is modelled by the tables the service reads, in the order the store
  returns their rows, and by the set of reads that raise. A read is identified by the place
  in the service that issues it; the per-user count of approved RSVPs also by the user id it
  asks for.
\<close>

datatype read =
    ReadBuddies1 | ReadBuddies2 | ReadUsers | ReadSports | ReadGoals | ReadRsvps
  | ReadCount "ident option"

text \<open>
  A \<open>buddies\<close> row is the pair \<open>(user1_id, user2_id)\<close>. A \<open>user_sports\<close> or \<open>user_goals\<close>
  row is \<open>(user_id, joined)\<close>, where \<open>joined\<close> is the joined \<open>sports(*)\<close> or \<open>goals(*)\<close>
  dictionary (modelled by its \<open>"id"\<close> entry, and never the empty dictionary) or \<open>None\<close>.
  An \<open>event_rsvps\<close> row is \<open>(user_id, status)\<close>.
\<close>

record supabase =
  users_tbl :: "user list"
  buddies_tbl :: "(ident \<times> ident) list"
  user_sports_tbl :: "(ident option \<times> ident option option) list"
  user_goals_tbl :: "(ident option \<times> ident option option) list"
  event_rsvps_tbl :: "(ident option \<times> string) list"
  fails :: "read \<Rightarrow> bool"

text \<open>
  The filters of the query builder follow SQL: \<open>.eq(col, v)\<close> and \<open>.in_(col, vs)\<close> keep a
  row whose column is not null and equals \<open>v\<close> (is among \<open>vs\<close>); \<open>.neq(col, v)\<close> keeps a
  row whose column is not null and differs from \<open>v\<close>. A read returns \<open>None\<close> when it
  raises.
\<close>

definition count_approved :: "supabase \<Rightarrow> ident option \<Rightarrow> int option" where
  "count_approved db u =
     (if fails db (ReadCount u) then None
      else Some (int (length (filter (\<lambda>(r, st). r \<noteq> None \<and> r = u \<and> st = ''approved'')
                                      (event_rsvps_tbl db)))))"

section \<open>calculate_buddy_score\<close>

text \<open>
  Each factor is the amount its branch adds to \<open>score\<close>, or \<open>None\<close> when no branch adds
  anything; \<open>add_term\<close> is the statement \<open>score += amount\<close>.
\<close>

definition add_term :: "float \<Rightarrow> float option \<Rightarrow> float" where
  "add_term score t = (case t of None \<Rightarrow> score | Some x \<Rightarrow> fadd score x)"

text \<open>The branch of the sports \<open>if\<close>/\<open>elif\<close> chain that is taken.\<close>

datatype sports_branch = Jaccard | Neutral | Partial | NoOverlap | NoBranch

definition sports_branch :: "ident set \<Rightarrow> ident set \<Rightarrow> sports_branch" where
  "sports_branch user1_sports user2_sports =
     (if user1_sports \<noteq> {} \<and> user2_sports \<noteq> {} then Jaccard
      else if user1_sports = {} \<and> user2_sports = {} then Neutral
      else if 0 < card user1_sports \<and> 0 < card user2_sports then
        (if user1_sports \<inter> user2_sports \<noteq> {} then Partial else NoOverlap)
      else NoBranch)"

definition jaccard :: "ident set \<Rightarrow> ident set \<Rightarrow> float" where
  "jaccard a b = (if a \<union> b \<noteq> {} then int_truediv (int (card (a \<inter> b))) (int (card (a \<union> b))) else 0)"

definition sports_term :: "ident set \<Rightarrow> ident set \<Rightarrow> float option" where
  "sports_term user1_sports user2_sports =
     (case sports_branch user1_sports user2_sports of
        Jaccard \<Rightarrow> Some (fmul (jaccard user1_sports user2_sports) (fl (35 / 100)))
      | Neutral \<Rightarrow> Some (fl (175 / 1000))
      | Partial \<Rightarrow> Some (fl (15 / 100))
      | NoOverlap \<Rightarrow> None
      | NoBranch \<Rightarrow> None)"

definition goals_term :: "ident set \<Rightarrow> ident set \<Rightarrow> float option" where
  "goals_term user1_goals user2_goals =
     (if user1_goals \<noteq> {} \<and> user2_goals \<noteq> {} then
        Some (fmul (jaccard user1_goals user2_goals) (fl (25 / 100)))
      else if user1_goals = {} \<and> user2_goals = {} then Some (fl (125 / 1000))
      else None)"

text \<open>\<open>user.get("location", "").lower().strip() if user.get("location") else ""\<close>\<close>

definition loc_of :: "user \<Rightarrow> string" where
  "loc_of u = (case location u of None \<Rightarrow> [] | Some s \<Rightarrow> if s = [] then [] else strip (lower s))"

definition location_term :: "string \<Rightarrow> string \<Rightarrow> float option" where
  "location_term loc1 loc2 =
     (if loc1 \<noteq> [] \<and> loc2 \<noteq> [] then
        (if loc1 = loc2 then Some (fl (20 / 100))
         else if remove_char CHR '' '' (remove_char CHR '','' loc1)
               = remove_char CHR '' '' (remove_char CHR '','' loc2) then Some (fl (18 / 100))
         else if sublist loc1 loc2 \<or> sublist loc2 loc1 then Some (fl (12 / 100))
         else (let common_words = set (split loc1) \<inter> set (split loc2);
                   common_words = Set.filter (\<lambda>w. 2 < length w) common_words
               in if common_words \<noteq> {} then Some (fl (8 / 100)) else None))
      else Some (fl (5 / 100)))"

definition age_term :: "int option \<Rightarrow> int option \<Rightarrow> float option" where
  "age_term age1 age2 =
     (case (age1, age2) of
        (Some a1, Some a2) \<Rightarrow>
          (if a1 \<noteq> 0 \<and> a2 \<noteq> 0 then
             (let age_diff = \<bar>a1 - a2\<bar> in
              if age_diff \<le> 3 then Some (fl (10 / 100))
              else if age_diff \<le> 5 then Some (fl (75 / 1000))
              else if age_diff \<le> 10 then Some (fl (5 / 100))
              else if age_diff \<le> 15 then Some (fl (25 / 1000))
              else None)
           else None)
      | _ \<Rightarrow> None)"

text \<open>The tier chain on two event counts; the source writes it out in both activity branches.\<close>

definition activity_tier :: "int \<Rightarrow> int \<Rightarrow> float" where
  "activity_tier user1_events user2_events =
     (if 5 \<le> user1_events \<and> 5 \<le> user2_events then fl (10 / 100)
      else if 3 \<le> user1_events \<and> 3 \<le> user2_events then fl (75 / 1000)
      else if user1_events \<le> 2 \<and> user2_events \<le> 2 then fl (5 / 100)
      else if 10 < \<bar>user1_events - user2_events\<bar> then fl (2 / 100)
      else fl (5 / 100))"

text \<open>\<open>event_counts.get(user.get("id"), 0)\<close>\<close>

definition get_count :: "(ident \<rightharpoonup> int) \<Rightarrow> ident option \<Rightarrow> int" where
  "get_count event_counts u =
     (case u of None \<Rightarrow> 0 | Some i \<Rightarrow> (case event_counts i of None \<Rightarrow> 0 | Some n \<Rightarrow> n))"

definition activity_term ::
  "user \<Rightarrow> user \<Rightarrow> supabase option \<Rightarrow> (ident \<rightharpoonup> int) option \<Rightarrow> float option" where
  "activity_term user1 user2 sb event_counts =
     (case event_counts of
        Some ec \<Rightarrow> Some (activity_tier (get_count ec (uid user1)) (get_count ec (uid user2)))
      | None \<Rightarrow>
         (case sb of
            None \<Rightarrow> None
          | Some db \<Rightarrow>
             (case count_approved db (uid user1) of
                None \<Rightarrow> Some (fl (5 / 100))
              | Some user1_events \<Rightarrow>
                 (case count_approved db (uid user2) of
                    None \<Rightarrow> Some (fl (5 / 100))
                  | Some user2_events \<Rightarrow> Some (activity_tier user1_events user2_events)))))"

definition raw_score ::
  "user \<Rightarrow> user \<Rightarrow> supabase option \<Rightarrow> (ident \<rightharpoonup> int) option \<Rightarrow> float" where
  "raw_score user1 user2 sb event_counts =
     (let score = 0;
          score = add_term score (sports_term (ids_of (sports user1)) (ids_of (sports user2)));
          score = add_term score (goals_term (ids_of (goals user1)) (ids_of (goals user2)));
          score = add_term score (location_term (loc_of user1) (loc_of user2));
          score = add_term score (age_term (age user1) (age user2));
          score = add_term score (activity_term user1 user2 sb event_counts)
      in score)"

definition calculate_buddy_score ::
  "user \<Rightarrow> user \<Rightarrow> supabase option \<Rightarrow> (ident \<rightharpoonup> int) option \<Rightarrow> float" where
  "calculate_buddy_score user1 user2 sb event_counts =
     round2 (fmul (raw_score user1 user2 sb event_counts) 100)"

section \<open>find_potential_buddies\<close>

text \<open>An entry \<open>{"user": ..., "score": ...}\<close> of the returned list.\<close>

record buddy_entry =
  entry_user :: user
  score :: float

text \<open>
  The two relationship reads share one \<open>try\<close>: when the first raises nothing is collected,
  when the second raises the ids of the first are kept.
\<close>

definition existing_buddy_user_ids :: "supabase \<Rightarrow> ident \<Rightarrow> ident set" where
  "existing_buddy_user_ids db user_id =
     (if fails db ReadBuddies1 then {}
      else (let ids1 = set (map snd (filter (\<lambda>(u1, u2). u1 = user_id) (buddies_tbl db))) in
            if fails db ReadBuddies2 then ids1
            else ids1 \<union> set (map fst (filter (\<lambda>(u1, u2). u2 = user_id) (buddies_tbl db)))))"

text \<open>\<open>(limit + 20) if limit else 300\<close>: a limit of \<open>None\<close> or \<open>0\<close> counts as no limit.\<close>

definition fetch_limit :: "int option \<Rightarrow> int" where
  "fetch_limit limit = (case limit of None \<Rightarrow> 300 | Some k \<Rightarrow> if k \<noteq> 0 then k + 20 else 300)"

text \<open>The rows of \<open>users\<close> that are active, discoverable and not the subject, in store order.\<close>

definition discoverable_users :: "supabase \<Rightarrow> ident \<Rightarrow> user list" where
  "discoverable_users db user_id =
     filter (\<lambda>u. is_active u \<and> is_discoverable u \<and> uid u \<noteq> None \<and> uid u \<noteq> Some user_id)
       (users_tbl db)"

text \<open>
  The candidate pool: the first \<open>fetch_limit\<close> such rows (none when the cap is not
  positive, or when the read raises), without the existing relationships.
\<close>

definition potential_users :: "supabase \<Rightarrow> ident \<Rightarrow> int option \<Rightarrow> user list" where
  "potential_users db user_id limit =
     (if fails db ReadUsers then []
      else (let existing_buddy_user_ids = existing_buddy_user_ids db user_id;
                data = take (nat (fetch_limit limit)) (discoverable_users db user_id)
            in if existing_buddy_user_ids \<noteq> {} then
                 filter (\<lambda>u. case uid u of None \<Rightarrow> True
                                | Some i \<Rightarrow> i \<notin> existing_buddy_user_ids) data
               else data))"

definition in_ids :: "ident list \<Rightarrow> ident option \<Rightarrow> bool" where
  "in_ids ids c = (case c of None \<Rightarrow> False | Some i \<Rightarrow> i \<in> set ids)"

text \<open>The loop \<open>by_user.setdefault(uid, []).append(s)\<close> over the rows of a batch read.\<close>

definition group_by_user ::
  "(ident option \<times> ident option option) list \<Rightarrow> (ident \<rightharpoonup> ident option list)" where
  "group_by_user rows =
     foldl (\<lambda>by_user (u, s).
              case (u, s) of
                (Some i, Some d) \<Rightarrow>
                  by_user(i \<mapsto> (case by_user i of None \<Rightarrow> [] | Some l \<Rightarrow> l) @ [d])
              | _ \<Rightarrow> by_user)
       Map.empty rows"

definition sports_by_user :: "supabase \<Rightarrow> ident list \<Rightarrow> (ident \<rightharpoonup> ident option list)" where
  "sports_by_user db potential_ids =
     (if fails db ReadSports then Map.empty
      else group_by_user (filter (\<lambda>(u, s). in_ids potential_ids u) (user_sports_tbl db)))"

definition goals_by_user :: "supabase \<Rightarrow> ident list \<Rightarrow> (ident \<rightharpoonup> ident option list)" where
  "goals_by_user db potential_ids =
     (if fails db ReadGoals then Map.empty
      else group_by_user (filter (\<lambda>(u, g). in_ids potential_ids u) (user_goals_tbl db)))"

text \<open>\<open>by_user.get(u.get("id"), [])\<close>\<close>

definition get_items :: "(ident \<rightharpoonup> ident option list) \<Rightarrow> ident option \<Rightarrow> ident option list" where
  "get_items by_user u =
     (case u of None \<Rightarrow> [] | Some i \<Rightarrow> (case by_user i of None \<Rightarrow> [] | Some l \<Rightarrow> l))"

definition set_affiliations ::
  "(ident \<rightharpoonup> ident option list) \<Rightarrow> (ident \<rightharpoonup> ident option list) \<Rightarrow> user \<Rightarrow> user" where
  "set_affiliations sports_by goals_by u =
     u\<lparr>sports := Some (Dicts (get_items sports_by (uid u))),
       goals := Some (Dicts (get_items goals_by (uid u)))\<rparr>"

text \<open>The loop \<open>event_counts[uid] = event_counts.get(uid, 0) + 1\<close> over the approved RSVPs.\<close>

definition count_events :: "(ident option \<times> string) list \<Rightarrow> (ident \<rightharpoonup> int)" where
  "count_events rows =
     foldl (\<lambda>event_counts (u, st).
              case u of
                Some i \<Rightarrow> event_counts(i \<mapsto> get_count event_counts (Some i) + 1)
              | None \<Rightarrow> event_counts)
       Map.empty rows"

definition batch_event_counts :: "supabase \<Rightarrow> ident list \<Rightarrow> (ident \<rightharpoonup> int)" where
  "batch_event_counts db potential_ids =
     (if fails db ReadRsvps then Map.empty
      else count_events
             (filter (\<lambda>(u, st). st = ''approved'' \<and> in_ids potential_ids u) (event_rsvps_tbl db)))"

text \<open>The slice \<open>xs[:k]\<close>: a negative \<open>k\<close> drops the last \<open>- k\<close> elements.\<close>

definition slice_to :: "int \<Rightarrow> 'a list \<Rightarrow> 'a list" where
  "slice_to k xs = (if 0 \<le> k then take (nat k) xs else take (length xs - nat (- k)) xs)"

text \<open>
  \<open>buddies.sort(key=..., reverse=True)\<close>: descending by key, equal keys in their original
  order (the list is reversed, sorted stably and reversed again).
\<close>

definition sort_desc :: "buddy_entry list \<Rightarrow> buddy_entry list" where
  "sort_desc buddies = rev (sort_key score (rev buddies))"

definition score_entry :: "user \<Rightarrow> supabase \<Rightarrow> (ident \<rightharpoonup> int) \<Rightarrow> user \<Rightarrow> buddy_entry" where
  "score_entry user db event_counts potential_user =
     \<lparr>entry_user = potential_user\<lparr>event_count := Some (get_count event_counts (uid potential_user))\<rparr>,
      score = calculate_buddy_score user potential_user (Some db) (Some event_counts)\<rparr>"

definition find_potential_buddies ::
  "user \<Rightarrow> supabase \<Rightarrow> int option \<Rightarrow> float \<Rightarrow> buddy_entry list" where
  "find_potential_buddies user db limit min_score =
     (case uid user of
        None \<Rightarrow> []
      | Some user_id \<Rightarrow>
         (if user_id = 0 then []
          else
            (let potential_users = potential_users db user_id limit;
                 potential_ids = List.map_filter uid potential_users
             in if potential_ids = [] then []
                else
                  (let potential_users =
                         map (set_affiliations (sports_by_user db potential_ids)
                                (goals_by_user db potential_ids)) potential_users;
                       event_counts = batch_event_counts db potential_ids;
                       buddies = map (score_entry user db event_counts) potential_users;
                       buddies = sort_desc buddies
                   in case limit of
                        None \<Rightarrow> buddies
                      | Some k \<Rightarrow> if k \<noteq> 0 then slice_to k buddies else buddies))))"

text \<open>The sorted list of scored candidates, before the limit is applied (for the proofs).\<close>

definition ranking :: "user \<Rightarrow> supabase \<Rightarrow> ident \<Rightarrow> int option \<Rightarrow> buddy_entry list" where
  "ranking user db i limit =
     (let ids = List.map_filter uid (potential_users db i limit)
      in sort_desc (map (score_entry user db (batch_event_counts db ids))
           (map (set_affiliations (sports_by_user db ids) (goals_by_user db ids))
              (potential_users db i limit))))"

section \<open>The create_buddy endpoint\<close>

text \<open>
  The input checks at the head of the \<open>create_buddy\<close> endpoint of the API layer, made once the
  client is at hand and before any read of the store: the caller needs an id, and the
  requested \<open>user2_id\<close> must differ from it.
\<close>

datatype http_error = HTTPException nat string

definition create_buddy_checks :: "user \<Rightarrow> ident \<Rightarrow> http_error option" where
  "create_buddy_checks current_user user2_id =
     (case uid current_user of
        None \<Rightarrow> Some (HTTPException 400 ''User ID not found'')
      | Some user_id \<Rightarrow>
          if user_id = 0 then Some (HTTPException 400 ''User ID not found'')
          else if user2_id = user_id then Some (HTTPException 400 ''Cannot buddy with yourself'')
          else None)"

section \<open>Example profiles and stores\<close>

definition profile :: "ident \<Rightarrow> ident list \<Rightarrow> string option \<Rightarrow> user" where
  "profile i sp loc =
     \<lparr>uid = Some i, sports = Some (Dicts (map Some sp)), goals = None, location = loc,
      age = None, is_active = True, is_discoverable = True, event_count = None\<rparr>"

definition store :: "user list \<Rightarrow> (ident \<times> ident) list \<Rightarrow> read set \<Rightarrow> supabase" where
  "store us bs down =
     \<lparr>users_tbl = us, buddies_tbl = bs, user_sports_tbl = [], user_goals_tbl = [],
      event_rsvps_tbl = [], fails = (\<lambda>r. r \<in> down)\<rparr>"

text \<open>A store of 22 candidates: only the last one shares the location \<open>"a"\<close>.\<close>

definition crowd :: "user list" where
  "crowd = map (\<lambda>j. profile j [] None)
     [2, 3, 4, 5, 6, 7, 8, 9, 10, 11, 12, 13, 14, 15, 16, 17, 18, 19, 20, 21, 22]
     @ [profile 23 [] (Some ''a'')]"

text \<open>An event-count map in which the users 1 and 2 have the same count.\<close>

definition two_counts :: "ident \<rightharpoonup> int" where
  "two_counts = [1 \<mapsto> 3, 2 \<mapsto> 3]"

section \<open>Properties of the rounding\<close>

lemma pow2_powi: "pow2 e = 2 powi e"
  by (simp add: pow2_def power_int_def field_simps)

lemma pow2_pos: "0 < pow2 e"
  by (simp add: pow2_powi)

lemma pow2_add: "pow2 (a + b) = pow2 a * pow2 b"
  by (simp add: pow2_powi power_int_add)

lemma pow2_mono: "a \<le> b \<Longrightarrow> pow2 a \<le> pow2 b"
  by (simp add: pow2_powi power_int_increasing)

lemma pow2_strict_mono: "a < b \<Longrightarrow> pow2 a < pow2 b"
  by (simp add: pow2_powi power_int_strict_increasing)

lemma pow2_nat: "pow2 (int n) = 2 ^ n"
  by (simp add: pow2_def)

lemma pow2_less_cancel: "pow2 a < pow2 b \<Longrightarrow> a < b"
  using pow2_mono [of b a] by (cases "a < b") auto

lemma binade_bounds:
  assumes "x \<noteq> 0"
  shows "pow2 (binade x) \<le> \<bar>x\<bar> \<and> \<bar>x\<bar> < pow2 (binade x + 1)"
proof -
  obtain p q where pq: "quotient_of \<bar>x\<bar> = (p, q)" by (cases "quotient_of \<bar>x\<bar>")
  have q: "0 < q" using pq by (rule quotient_of_denom_pos)
  have x: "\<bar>x\<bar> = of_int p / of_int q" using pq by (rule quotient_of_div)
  have "0 < \<bar>x\<bar>" using assms by simp
  then have p: "0 < p" using q x by (simp add: zero_less_divide_iff)
  define e where "e = bitlen p - bitlen q"
  have bp: "2 ^ nat (bitlen p - 1) \<le> p" "p < 2 ^ nat (bitlen p)" using bitlen_bounds [OF p] by auto
  have bq: "2 ^ nat (bitlen q - 1) \<le> q" "q < 2 ^ nat (bitlen q)" using bitlen_bounds [OF q] by auto
  have lp: "1 \<le> bitlen p" using p by (simp add: bitlen_alt_def)
  have lq: "1 \<le> bitlen q" using q by (simp add: bitlen_alt_def)
  have P1: "pow2 (bitlen p - 1) \<le> of_int p"
  proof -
    have "(of_int (2 ^ nat (bitlen p - 1)) :: rat) \<le> of_int p" using bp(1) by (simp only: of_int_le_iff)
    then show ?thesis using lp by (simp add: pow2_def)
  qed
  have P2: "of_int p < pow2 (bitlen p)"
  proof -
    have "(of_int p :: rat) < of_int (2 ^ nat (bitlen p))" using bp(2) by (simp only: of_int_less_iff)
    then show ?thesis using lp by (simp add: pow2_def)
  qed
  have Q1: "pow2 (bitlen q - 1) \<le> of_int q"
  proof -
    have "(of_int (2 ^ nat (bitlen q - 1)) :: rat) \<le> of_int q" using bq(1) by (simp only: of_int_le_iff)
    then show ?thesis using lq by (simp add: pow2_def)
  qed
  have Q2: "of_int q < pow2 (bitlen q)"
  proof -
    have "(of_int q :: rat) < of_int (2 ^ nat (bitlen q))" using bq(2) by (simp only: of_int_less_iff)
    then show ?thesis using lq by (simp add: pow2_def)
  qed
  have qpos: "(0::rat) < of_int q" using q by simp
  have up: "\<bar>x\<bar> < pow2 (e + 1)"
  proof -
    have "of_int p < pow2 (bitlen p)" by (rule P2)
    also have "pow2 (bitlen p) = pow2 (e + 1) * pow2 (bitlen q - 1)"
      by (simp add: e_def flip: pow2_add)
    also have "\<dots> \<le> pow2 (e + 1) * of_int q"
      using Q1 pow2_pos [of "e + 1"] by (simp add: mult_left_mono)
    finally show ?thesis using qpos by (simp add: x pos_divide_less_eq)
  qed
  have lo: "pow2 (e - 1) < \<bar>x\<bar>"
  proof -
    have "pow2 (e - 1) * of_int q < pow2 (e - 1) * pow2 (bitlen q)"
      using Q2 pow2_pos [of "e - 1"] by (simp add: mult_strict_left_mono)
    also have "\<dots> = pow2 (bitlen p - 1)" by (simp add: e_def flip: pow2_add)
    also have "\<dots> \<le> of_int p" by (rule P1)
    finally show ?thesis using qpos by (simp add: x pos_less_divide_eq)
  qed
  show ?thesis
  proof (cases "pow2 e \<le> \<bar>x\<bar>")
    case True
    then have "binade x = e" by (simp add: binade_def pq e_def Let_def)
    then show ?thesis using True up by simp
  next
    case False
    then have "binade x = e - 1" by (simp add: binade_def pq e_def Let_def)
    then show ?thesis using False lo by simp
  qed
qed

lemma binade_unique:
  assumes "pow2 e \<le> \<bar>x\<bar>" "\<bar>x\<bar> < pow2 (e + 1)"
  shows "binade x = e"
proof -
  have "x \<noteq> 0" using assms(1) pow2_pos [of e] by auto
  then have b: "pow2 (binade x) \<le> \<bar>x\<bar>" "\<bar>x\<bar> < pow2 (binade x + 1)"
    using binade_bounds by auto
  have "pow2 e < pow2 (binade x + 1)" using assms(1) b(2) by simp
  then have 1: "e < binade x + 1" by (rule pow2_less_cancel)
  have "pow2 (binade x) < pow2 (e + 1)" using assms(2) b(1) by simp
  then have 2: "binade x < e + 1" by (rule pow2_less_cancel)
  show ?thesis using 1 2 by simp
qed

lemma rhe_cases:
  "round_half_even x = \<lfloor>x\<rfloor> \<or> round_half_even x = \<lfloor>x\<rfloor> + 1"
  by (simp add: round_half_even_def Let_def)

lemma rhe_error: "\<bar>of_int (round_half_even x) - x\<bar> \<le> 1 / 2"
proof -
  have "of_int \<lfloor>x\<rfloor> \<le> x" "x < of_int \<lfloor>x\<rfloor> + 1" by linarith+
  then show ?thesis by (auto simp add: round_half_even_def Let_def)
qed

lemma rhe_near:
  assumes "\<bar>x - of_int n\<bar> < 1 / 2"
  shows "round_half_even x = n"
proof -
  have e: "\<bar>of_int (round_half_even x) - x\<bar> \<le> 1 / 2" by (rule rhe_error)
  have "\<bar>(of_int (round_half_even x) :: rat) - of_int n\<bar> < 1" using assms e by linarith
  then have "\<bar>(of_int (round_half_even x - n) :: rat)\<bar> < 1" by simp
  then have "\<bar>round_half_even x - n\<bar> < 1" by (simp only: of_int_abs [symmetric] of_int_less_1_iff)
  then show ?thesis by simp
qed

lemma rhe_of_int: "round_half_even (of_int n) = n"
  by (rule rhe_near) simp

lemma rhe_mono:
  assumes "x \<le> y"
  shows "round_half_even x \<le> round_half_even y"
proof (cases "\<lfloor>x\<rfloor> = \<lfloor>y\<rfloor>")
  case True
  then show ?thesis using assms by (auto simp add: round_half_even_def Let_def)
next
  case False
  have "\<lfloor>x\<rfloor> \<le> \<lfloor>y\<rfloor>" using assms by (rule floor_mono)
  then have "\<lfloor>x\<rfloor> + 1 \<le> \<lfloor>y\<rfloor>" using False by simp
  moreover have "round_half_even x \<le> \<lfloor>x\<rfloor> + 1" using rhe_cases [of x] by auto
  moreover have "\<lfloor>y\<rfloor> \<le> round_half_even y" using rhe_cases [of y] by auto
  ultimately show ?thesis by linarith
qed

lemma ulp_pos: "0 < ulp x"
  by (simp add: ulp_def pow2_pos)

lemma fl_zero: "fl 0 = 0"
  by (simp add: fl_def)

lemma fl_nonneg:
  assumes "0 \<le> x"
  shows "0 \<le> fl x"
proof (cases "x = 0")
  case True
  then show ?thesis by (simp add: fl_def)
next
  case False
  have "0 \<le> x / ulp x" using assms ulp_pos [of x] by simp
  then have "round_half_even 0 \<le> round_half_even (x / ulp x)" by (rule rhe_mono)
  then have "0 \<le> round_half_even (x / ulp x)" using rhe_of_int [of 0] by simp
  then show ?thesis using False ulp_pos [of x] by (simp add: fl_def)
qed

text \<open>The exponent of the spacing.\<close>

lemma binade_mono:
  assumes "0 < x" "x \<le> y"
  shows "binade x \<le> binade y"
proof -
  have bx: "pow2 (binade x) \<le> \<bar>x\<bar>" using binade_bounds [of x] assms by auto
  have by': "\<bar>y\<bar> < pow2 (binade y + 1)" using binade_bounds [of y] assms by auto
  have "pow2 (binade x) < pow2 (binade y + 1)" using bx by' assms by simp
  then have "binade x < binade y + 1" by (rule pow2_less_cancel)
  then show ?thesis by simp
qed

lemma fl_upper:
  assumes "0 < x"
  shows "fl x \<le> pow2 (max (binade x) (- 1022) + 1)"
proof -
  define e where "e = max (binade x) (- 1022)"
  have u: "ulp x = pow2 (e - 52)" by (simp add: ulp_def e_def)
  have "x < pow2 (binade x + 1)" using binade_bounds [of x] assms by auto
  also have "\<dots> \<le> pow2 (e + 1)" by (rule pow2_mono) (simp add: e_def)
  finally have "x < pow2 (e + 1)" .
  moreover have "pow2 (e + 1) = 2 ^ 53 * pow2 (e - 52)"
  proof -
    have "e + 1 = 53 + (e - 52)" by simp
    then have "pow2 (e + 1) = pow2 53 * pow2 (e - 52)" by (simp only: pow2_add)
    then show ?thesis by (simp add: pow2_def)
  qed
  ultimately have "x / ulp x \<le> 2 ^ 53" using pow2_pos [of "e - 52"]
    by (simp add: u pos_divide_le_eq)
  then have "round_half_even (x / ulp x) \<le> round_half_even (of_int (2 ^ 53))"
    by (intro rhe_mono) simp
  then have "round_half_even (x / ulp x) \<le> 2 ^ 53" by (simp only: rhe_of_int)
  then have "(of_int (round_half_even (x / ulp x)) :: rat) \<le> of_int (2 ^ 53)"
    by (simp only: of_int_le_iff)
  then have "of_int (round_half_even (x / ulp x)) * ulp x \<le> 2 ^ 53 * pow2 (e - 52)"
    using pow2_pos [of "e - 52"] by (simp add: u)
  then show ?thesis using assms \<open>pow2 (e + 1) = 2 ^ 53 * pow2 (e - 52)\<close>
    by (simp add: fl_def e_def)
qed

lemma fl_lower:
  assumes "0 < x" "- 1022 \<le> binade x"
  shows "pow2 (binade x) \<le> fl x"
proof -
  define e where "e = binade x"
  have u: "ulp x = pow2 (e - 52)" using assms(2) by (simp add: ulp_def e_def max_def)
  have "pow2 e \<le> x" using binade_bounds [of x] assms by (auto simp add: e_def)
  moreover have p: "pow2 e = 2 ^ 52 * pow2 (e - 52)"
    using pow2_add [of 52 "e - 52"] by (simp add: pow2_def)
  ultimately have "2 ^ 52 \<le> x / ulp x" using pow2_pos [of "e - 52"]
    by (simp add: u pos_le_divide_eq)
  then have "round_half_even (of_int (2 ^ 52)) \<le> round_half_even (x / ulp x)"
    by (intro rhe_mono) simp
  then have "2 ^ 52 \<le> round_half_even (x / ulp x)" by (simp only: rhe_of_int)
  then have "(of_int (2 ^ 52) :: rat) \<le> of_int (round_half_even (x / ulp x))"
    by (simp only: of_int_le_iff)
  then have "2 ^ 52 * pow2 (e - 52) \<le> of_int (round_half_even (x / ulp x)) * ulp x"
    using pow2_pos [of "e - 52"] by (simp add: u)
  then show ?thesis using assms p by (simp add: fl_def e_def)
qed

lemma fl_mono_pos:
  assumes "0 < x" "x \<le> y"
  shows "fl x \<le> fl y"
proof -
  define ex where "ex = max (binade x) (- 1022)"
  define ey where "ey = max (binade y) (- 1022)"
  have y: "0 < y" using assms by simp
  have le: "ex \<le> ey" using binade_mono [OF assms] by (simp add: ex_def ey_def)
  show ?thesis
  proof (cases "ex = ey")
    case True
    then have u: "ulp x = ulp y" by (simp add: ulp_def ex_def ey_def)
    have "x / ulp y \<le> y / ulp y" using assms ulp_pos [of y] by (simp add: divide_right_mono)
    then have "round_half_even (x / ulp y) \<le> round_half_even (y / ulp y)" by (rule rhe_mono)
    then have "(of_int (round_half_even (x / ulp y)) :: rat) \<le> of_int (round_half_even (y / ulp y))"
      by (simp only: of_int_le_iff)
    then have "of_int (round_half_even (x / ulp y)) * ulp y \<le> of_int (round_half_even (y / ulp y)) * ulp y"
      using ulp_pos [of y] by (simp add: mult_right_mono)
    then show ?thesis using assms y by (simp add: fl_def u)
  next
    case False
    then have lt: "ex < ey" using le by simp
    then have by': "binade y = ey" "- 1022 \<le> binade y" by (auto simp add: ex_def ey_def)
    have "fl x \<le> pow2 (ex + 1)" using fl_upper [OF assms(1)] by (simp add: ex_def)
    also have "\<dots> \<le> pow2 ey" using lt by (intro pow2_mono) simp
    also have "\<dots> \<le> fl y" using fl_lower [OF y by'(2)] by (simp add: by'(1))
    finally show ?thesis .
  qed
qed

lemma fl_mono:
  assumes "0 \<le> x" "x \<le> y"
  shows "fl x \<le> fl y"
proof (cases "x = 0")
  case True
  then show ?thesis using fl_nonneg [of y] assms by (simp add: fl_zero)
next
  case False
  then show ?thesis using assms fl_mono_pos [of x y] by simp
qed

lemma fl_error:
  assumes "0 < x" "- 1022 \<le> binade x"
  shows "\<bar>fl x - x\<bar> \<le> x / 2 ^ 53"
proof -
  define e where "e = binade x"
  have u: "ulp x = pow2 (e - 52)" using assms(2) by (simp add: ulp_def e_def max_def)
  have up: "0 < ulp x" by (rule ulp_pos)
  have "\<bar>of_int (round_half_even (x / ulp x)) - x / ulp x\<bar> \<le> 1 / 2" by (rule rhe_error)
  then have "\<bar>of_int (round_half_even (x / ulp x)) - x / ulp x\<bar> * ulp x \<le> 1 / 2 * ulp x"
    using up by (intro mult_right_mono) simp_all
  then have "\<bar>(of_int (round_half_even (x / ulp x)) - x / ulp x) * ulp x\<bar> \<le> ulp x / 2"
    using up by (simp add: abs_mult)
  then have 1: "\<bar>fl x - x\<bar> \<le> ulp x / 2"
    using up assms(1) by (simp add: fl_def left_diff_distrib)
  have "pow2 e \<le> x" using binade_bounds [of x] assms by (auto simp add: e_def)
  moreover have "pow2 e = 2 ^ 52 * pow2 (e - 52)"
    using pow2_add [of 52 "e - 52"] by (simp add: pow2_def)
  ultimately have "2 ^ 52 * ulp x \<le> x" by (simp add: u)
  then have "ulp x / 2 \<le> x / 2 ^ 53" by (simp add: field_simps)
  then show ?thesis using 1 by linarith
qed

lemma fl_tieI:
  assumes "pow2 e \<le> x" "x < pow2 (e + 1)" "- 1022 \<le> e"
    and "round_half_even (x / pow2 (e - 52)) = n"
    and "y = of_int n * pow2 (e - 52)"
  shows "fl x = y"
proof -
  have x: "0 < x" using assms(1) pow2_pos [of e] by simp
  then have "binade x = e" using assms(1,2) by (intro binade_unique) simp_all
  then have u: "ulp x = pow2 (e - 52)" using assms(3) by (simp add: ulp_def max_def)
  show ?thesis using x by (simp add: fl_def u assms(4,5))
qed

lemma fl_evalI:
  assumes "pow2 e \<le> x" "x < pow2 (e + 1)" "- 1022 \<le> e"
    and "\<bar>x / pow2 (e - 52) - of_int n\<bar> < 1 / 2"
    and "y = of_int n * pow2 (e - 52)"
  shows "fl x = y"
  using assms(1,2,3) rhe_near [OF assms(4)] assms(5) by (rule fl_tieI)

lemma rhe_half: "round_half_even (of_int f + 1 / 2) = (if even f then f else f + 1)"
proof -
  have "\<lfloor>(of_int f :: rat) + 1 / 2\<rfloor> = f" by linarith
  then show ?thesis by (simp add: round_half_even_def Let_def)
qed

lemma fl_halfI:
  assumes "pow2 e \<le> x" "x < pow2 (e + 1)" "- 1022 \<le> e"
    and "x / pow2 (e - 52) = of_int f + 1 / 2"
    and "y = of_int (if even f then f else f + 1) * pow2 (e - 52)"
  shows "fl x = y"
  using assms(1,2,3) _ assms(5) by (rule fl_tieI) (simp only: assms(4) rhe_half)

lemma rhe_numeral: "round_half_even (numeral k) = numeral k"
  using rhe_of_int [of "numeral k"] by simp

subsection \<open>Values of the roundings the proofs evaluate\<close>

lemma fl_val_1: "fl (1 / 50) = 5764607523034235 / 288230376151711744"
  by (rule fl_evalI [where e = "- 6" and n = 5764607523034235]) (simp_all add: pow2_def)

lemma fl_val_2: "fl (1 / 40) = 3602879701896397 / 144115188075855872"
  by (rule fl_evalI [where e = "- 6" and n = 7205759403792794]) (simp_all add: pow2_def)

lemma fl_val_3: "fl (1 / 20) = 3602879701896397 / 72057594037927936"
  by (rule fl_evalI [where e = "- 5" and n = 7205759403792794]) (simp_all add: pow2_def)

lemma fl_val_4: "fl (3 / 40) = 5404319552844595 / 72057594037927936"
  by (rule fl_evalI [where e = "- 4" and n = 5404319552844595]) (simp_all add: pow2_def)

lemma fl_val_5: "fl (2 / 25) = 5764607523034235 / 72057594037927936"
  by (rule fl_evalI [where e = "- 4" and n = 5764607523034235]) (simp_all add: pow2_def)

lemma fl_val_6: "fl (1 / 10) = 3602879701896397 / 36028797018963968"
  by (rule fl_evalI [where e = "- 4" and n = 7205759403792794]) (simp_all add: pow2_def)

lemma fl_val_7: "fl (3 / 25) = 1080863910568919 / 9007199254740992"
  by (rule fl_evalI [where e = "- 4" and n = 8646911284551352]) (simp_all add: pow2_def)

lemma fl_val_8: "fl (1 / 8) = 1 / 8"
  by (rule fl_evalI [where e = "- 3" and n = 4503599627370496]) (simp_all add: pow2_def)

lemma fl_val_9: "fl (24338891524382001613565512519329 / 162259276829213363391578010288128) = 5404319552844595 / 36028797018963968"
  by (rule fl_evalI [where e = "- 3" and n = 5404319552844595]) (simp_all add: pow2_def)

lemma fl_val_10: "fl (3 / 20) = 5404319552844595 / 36028797018963968"
  by (rule fl_evalI [where e = "- 3" and n = 5404319552844595]) (simp_all add: pow2_def)

lemma fl_val_11: "fl (3152519739159347 / 18014398509481984) = 3152519739159347 / 18014398509481984"
  by (rule fl_evalI [where e = "- 3" and n = 6305039478318694]) (simp_all add: pow2_def)

lemma fl_val_12: "fl (7 / 40) = 3152519739159347 / 18014398509481984"
  by (rule fl_evalI [where e = "- 3" and n = 6305039478318694]) (simp_all add: pow2_def)

lemma fl_val_13: "fl (12610078956637389 / 72057594037927936) = 3152519739159347 / 18014398509481984"
  by (rule fl_halfI [where e = "- 3" and f = 6305039478318694]) (simp_all add: pow2_def)

lemma fl_val_14: "fl (9 / 50) = 3242591731706757 / 18014398509481984"
  by (rule fl_evalI [where e = "- 3" and n = 6485183463413514]) (simp_all add: pow2_def)

lemma fl_val_15: "fl (1 / 5) = 3602879701896397 / 18014398509481984"
  by (rule fl_evalI [where e = "- 3" and n = 7205759403792794]) (simp_all add: pow2_def)

lemma fl_val_16: "fl (1 / 4) = 1 / 4"
  by (rule fl_evalI [where e = "- 2" and n = 4503599627370496]) (simp_all add: pow2_def)

lemma fl_val_17: "fl (5404319552844595 / 18014398509481984) = 5404319552844595 / 18014398509481984"
  by (rule fl_evalI [where e = "- 2" and n = 5404319552844595]) (simp_all add: pow2_def)

lemma fl_val_18: "fl (3152519739159347 / 9007199254740992) = 3152519739159347 / 9007199254740992"
  by (rule fl_evalI [where e = "- 2" and n = 6305039478318694]) (simp_all add: pow2_def)

lemma fl_val_19: "fl (25220157913274777 / 72057594037927936) = 3152519739159347 / 9007199254740992"
  by (rule fl_evalI [where e = "- 2" and n = 6305039478318694]) (simp_all add: pow2_def)

lemma fl_val_20: "fl (7 / 20) = 3152519739159347 / 9007199254740992"
  by (rule fl_evalI [where e = "- 2" and n = 6305039478318694]) (simp_all add: pow2_def)

lemma fl_val_21: "fl (28823037615171173 / 72057594037927936) = 7205759403792793 / 18014398509481984"
  by (rule fl_evalI [where e = "- 2" and n = 7205759403792793]) (simp_all add: pow2_def)

lemma fl_val_22: "fl (3 / 7) = 7720456504063707 / 18014398509481984"
  by (rule fl_evalI [where e = "- 2" and n = 7720456504063707]) (simp_all add: pow2_def)

lemma fl_val_23: "fl (1 / 2) = 1 / 2"
  by (rule fl_evalI [where e = "- 1" and n = 4503599627370496]) (simp_all add: pow2_def)

lemma fl_val_24: "fl (39631676720860365 / 72057594037927936) = 2476979795053773 / 4503599627370496"
  by (rule fl_evalI [where e = "- 1" and n = 4953959590107546]) (simp_all add: pow2_def)

lemma fl_val_25: "fl (5404319552844595 / 9007199254740992) = 5404319552844595 / 9007199254740992"
  by (rule fl_evalI [where e = "- 1" and n = 5404319552844595]) (simp_all add: pow2_def)

lemma fl_val_26: "fl (14411518807585587 / 18014398509481984) = 3602879701896397 / 4503599627370496"
  by (rule fl_halfI [where e = "- 1" and f = 7205759403792793]) (simp_all add: pow2_def)

lemma fl_val_27: "fl (32425917317067573 / 36028797018963968) = 8106479329266893 / 9007199254740992"
  by (rule fl_evalI [where e = "- 1" and n = 8106479329266893]) (simp_all add: pow2_def)

lemma fl_val_28: "fl (1) = 1"
  by (rule fl_evalI [where e = "0" and n = 4503599627370496]) (simp_all add: pow2_def)

lemma fl_val_29: "fl (36028797018963969 / 36028797018963968) = 1"
  by (rule fl_evalI [where e = "0" and n = 4503599627370496]) (simp_all add: pow2_def)

lemma fl_val_30: "fl (78812993478983675 / 4503599627370496) = 35 / 2"
  by (rule fl_evalI [where e = "4" and n = 4925812092436480]) (simp_all add: pow2_def)

lemma fl_val_31: "fl (35 / 2) = 35 / 2"
  by (rule fl_evalI [where e = "4" and n = 4925812092436480]) (simp_all add: pow2_def)

lemma fl_val_32: "fl (78812993478983675 / 2251799813685248) = 35"
  by (rule fl_evalI [where e = "5" and n = 4925812092436480]) (simp_all add: pow2_def)

lemma fl_val_33: "fl (35) = 35"
  by (rule fl_evalI [where e = "5" and n = 4925812092436480]) (simp_all add: pow2_def)

lemma fl_val_34: "fl (180143985094819825 / 4503599627370496) = 40"
  by (rule fl_evalI [where e = "5" and n = 5629499534213120]) (simp_all add: pow2_def)

lemma fl_val_35: "fl (40) = 40"
  by (rule fl_evalI [where e = "5" and n = 5629499534213120]) (simp_all add: pow2_def)

lemma fl_val_36: "fl (55) = 55"
  by (rule fl_evalI [where e = "5" and n = 7740561859543040]) (simp_all add: pow2_def)

lemma fl_val_37: "fl (61924494876344325 / 1125899906842624) = 7740561859543041 / 140737488355328"
  by (rule fl_evalI [where e = "5" and n = 7740561859543041]) (simp_all add: pow2_def)

lemma fl_val_38: "fl (100) = 100"
  by (rule fl_evalI [where e = "6" and n = 7036874417766400]) (simp_all add: pow2_def)

lemma rhe_val_1: "round_half_even (193514046488576025 / 35184372088832) = 5500"
  by (rule rhe_near) simp

lemmas fl_vals = fl_val_1 fl_val_2 fl_val_3 fl_val_4 fl_val_5 fl_val_6 fl_val_7 fl_val_8
  fl_val_9 fl_val_10 fl_val_11 fl_val_12 fl_val_13 fl_val_14 fl_val_15 fl_val_16 fl_val_17
  fl_val_18 fl_val_19 fl_val_20 fl_val_21 fl_val_22 fl_val_23 fl_val_24 fl_val_25 fl_val_26
  fl_val_27 fl_val_28 fl_val_29 fl_val_30 fl_val_31 fl_val_32 fl_val_33 fl_val_34 fl_val_35
  fl_val_36 fl_val_37 fl_val_38 rhe_val_1

section \<open>Range and precision of the score\<close>

lemma finite_extract_ids: "finite (extract_ids its)"
  by (cases its) simp_all

lemma finite_ids_of: "finite (ids_of raw)"
  by (simp add: ids_of_def finite_extract_ids split: option.splits)

lemma fl_one: "fl 1 = 1"
  by (rule fl_evalI [where e = 0 and n = 4503599627370496]) (simp_all add: pow2_def)

lemma fl_hundred: "fl 100 = 100"
  by (rule fl_evalI [where e = 6 and n = 7036874417766400]) (simp_all add: pow2_def)

lemma jaccard_bounds:
  assumes "finite a" "finite b"
  shows "0 \<le> jaccard a b \<and> jaccard a b \<le> 1"
proof (cases "a \<union> b = {}")
  case True
  then show ?thesis by (simp add: jaccard_def)
next
  case False
  let ?r = "(of_int (int (card (a \<inter> b))) :: rat) / of_int (int (card (a \<union> b)))"
  have "card (a \<inter> b) \<le> card (a \<union> b)" using assms by (intro card_mono) auto
  moreover have "0 < card (a \<union> b)" using assms False by (simp add: card_gt_0_iff)
  ultimately have r: "0 \<le> ?r" "?r \<le> 1" by simp_all
  have "0 \<le> fl ?r" using r(1) by (rule fl_nonneg)
  moreover have "fl ?r \<le> fl 1" using r by (rule fl_mono)
  ultimately show ?thesis using False by (simp add: jaccard_def int_truediv_def fl_one)
qed

lemma fmul_weight:
  assumes "0 \<le> j" "j \<le> 1" "0 \<le> w" "fl w = w"
  shows "0 \<le> fmul j w \<and> fmul j w \<le> w"
proof -
  have "0 \<le> j * w" using assms by simp
  moreover have "j * w \<le> w" using assms by (simp add: mult_left_le_one_le)
  ultimately have "0 \<le> fl (j * w)" "fl (j * w) \<le> fl w" by (auto intro: fl_nonneg fl_mono)
  then show ?thesis using assms(4) by (simp add: fmul_def)
qed

lemma add_term_bounds:
  assumes "0 \<le> s" "s \<le> S" "\<And>v. t = Some v \<Longrightarrow> 0 \<le> v \<and> v \<le> W"
    and "S \<le> T" "fl (S + W) \<le> T"
  shows "0 \<le> add_term s t \<and> add_term s t \<le> T"
proof (cases t)
  case None
  then show ?thesis using assms by (simp add: add_term_def)
next
  case (Some v)
  then have v: "0 \<le> v" "v \<le> W" using assms(3) by auto
  have "0 \<le> fl (s + v)" using assms(1) v(1) by (intro fl_nonneg) simp
  moreover have "fl (s + v) \<le> fl (S + W)" using assms(1,2) v by (intro fl_mono) simp_all
  ultimately show ?thesis using Some assms(5) by (simp add: add_term_def fadd_def)
qed

lemma sports_term_bounds:
  assumes "finite a" "finite b" "sports_term a b = Some v"
  shows "0 \<le> v \<and> v \<le> 3152519739159347 / 9007199254740992"
proof (cases "sports_branch a b")
  case Jaccard
  have "0 \<le> fmul (jaccard a b) (fl (35 / 100)) \<and> fmul (jaccard a b) (fl (35 / 100)) \<le> fl (35 / 100)"
    using jaccard_bounds [OF assms(1,2)] by (intro fmul_weight) (simp_all add: fl_vals)
  then show ?thesis using assms(3) Jaccard by (simp add: sports_term_def fl_vals)
qed (use assms(3) in \<open>simp_all add: sports_term_def fl_vals\<close>)

lemma goals_term_bounds:
  assumes "finite a" "finite b" "goals_term a b = Some v"
  shows "0 \<le> v \<and> v \<le> 1 / 4"
proof (cases "a \<noteq> {} \<and> b \<noteq> {}")
  case True
  have "0 \<le> fmul (jaccard a b) (fl (25 / 100)) \<and> fmul (jaccard a b) (fl (25 / 100)) \<le> fl (25 / 100)"
    using jaccard_bounds [OF assms(1,2)] by (intro fmul_weight) (simp_all add: fl_vals)
  then show ?thesis using assms(3) True by (simp add: goals_term_def fl_vals)
next
  case False
  then show ?thesis using assms(3) by (auto simp add: goals_term_def fl_vals split: if_splits)
qed

lemma location_term_bounds:
  assumes "location_term l1 l2 = Some v"
  shows "0 \<le> v \<and> v \<le> 3602879701896397 / 18014398509481984"
  using assms by (auto simp add: location_term_def Let_def fl_vals split: if_splits)

lemma age_term_bounds:
  assumes "age_term a1 a2 = Some v"
  shows "0 \<le> v \<and> v \<le> 3602879701896397 / 36028797018963968"
  using assms by (auto simp add: age_term_def Let_def fl_vals split: if_splits option.splits)

lemma activity_tier_bounds:
  "0 \<le> activity_tier m n \<and> activity_tier m n \<le> 3602879701896397 / 36028797018963968"
  by (simp add: activity_tier_def fl_vals)

lemma activity_term_bounds:
  assumes "activity_term u1 u2 sb ec = Some v"
  shows "0 \<le> v \<and> v \<le> 3602879701896397 / 36028797018963968"
  using assms activity_tier_bounds
  by (auto simp add: activity_term_def fl_vals split: option.splits)

lemma raw_score_bounds: "0 \<le> raw_score u1 u2 sb ec \<and> raw_score u1 u2 sb ec \<le> 1"
proof -
  define s1 where "s1 = add_term 0 (sports_term (ids_of (sports u1)) (ids_of (sports u2)))"
  define s2 where "s2 = add_term s1 (goals_term (ids_of (goals u1)) (ids_of (goals u2)))"
  define s3 where "s3 = add_term s2 (location_term (loc_of u1) (loc_of u2))"
  define s4 where "s4 = add_term s3 (age_term (age u1) (age u2))"
  define s5 where "s5 = add_term s4 (activity_term u1 u2 sb ec)"
  have 1: "0 \<le> s1 \<and> s1 \<le> 3152519739159347 / 9007199254740992"
    unfolding s1_def
  proof (rule add_term_bounds [where S = 0 and W = "3152519739159347 / 9007199254740992"])
    fix v
    assume "sports_term (ids_of (sports u1)) (ids_of (sports u2)) = Some v"
    then show "0 \<le> v \<and> v \<le> 3152519739159347 / 9007199254740992"
      by (rule sports_term_bounds [OF finite_ids_of finite_ids_of])
  qed (simp_all add: fl_vals)
  have 2: "0 \<le> s2 \<and> s2 \<le> 5404319552844595 / 9007199254740992"
    unfolding s2_def
  proof (rule add_term_bounds [where S = "3152519739159347 / 9007199254740992" and W = "1 / 4"])
    fix v
    assume "goals_term (ids_of (goals u1)) (ids_of (goals u2)) = Some v"
    then show "0 \<le> v \<and> v \<le> 1 / 4"
      by (rule goals_term_bounds [OF finite_ids_of finite_ids_of])
  qed (use 1 in \<open>simp_all add: fl_vals\<close>)
  have 3: "0 \<le> s3 \<and> s3 \<le> 3602879701896397 / 4503599627370496"
    unfolding s3_def
  proof (rule add_term_bounds [where S = "5404319552844595 / 9007199254740992" and W = "3602879701896397 / 18014398509481984"])
    fix v
    assume "location_term (loc_of u1) (loc_of u2) = Some v"
    then show "0 \<le> v \<and> v \<le> 3602879701896397 / 18014398509481984"
      by (rule location_term_bounds)
  qed (use 2 in \<open>simp_all add: fl_vals\<close>)
  have 4: "0 \<le> s4 \<and> s4 \<le> 8106479329266893 / 9007199254740992"
    unfolding s4_def
  proof (rule add_term_bounds [where S = "3602879701896397 / 4503599627370496" and W = "3602879701896397 / 36028797018963968"])
    fix v
    assume "age_term (age u1) (age u2) = Some v"
    then show "0 \<le> v \<and> v \<le> 3602879701896397 / 36028797018963968"
      by (rule age_term_bounds)
  qed (use 3 in \<open>simp_all add: fl_vals\<close>)
  have 5: "0 \<le> s5 \<and> s5 \<le> 1"
    unfolding s5_def
  proof (rule add_term_bounds [where S = "8106479329266893 / 9007199254740992" and W = "3602879701896397 / 36028797018963968"])
    fix v
    assume "activity_term u1 u2 sb ec = Some v"
    then show "0 \<le> v \<and> v \<le> 3602879701896397 / 36028797018963968"
      by (rule activity_term_bounds)
  qed (use 4 in \<open>simp_all add: fl_vals\<close>)
  have "raw_score u1 u2 sb ec = s5"
    by (simp add: raw_score_def Let_def s1_def s2_def s3_def s4_def s5_def)
  then show ?thesis using 5 by simp
qed

lemma binade_cent: "binade (1 / 100) = - 7"
  by (rule binade_unique) (simp_all add: pow2_def)

lemma cents_exact:
  assumes "0 \<le> k" "k \<le> 10000"
  shows "round_half_even (fl (of_int k / 100) * 100) = k"
proof (cases "k = 0")
  case True
  then show ?thesis using rhe_of_int [of 0] by (simp add: fl_zero)
next
  case False
  define x :: rat where "x = of_int k / 100"
  have k1: "1 \<le> k" using assms(1) False by simp
  then have "(of_int 1 :: rat) \<le> of_int k" by (simp only: of_int_le_iff)
  then have x: "1 / 100 \<le> x" by (simp add: x_def)
  then have x0: "0 < x" by simp
  have "binade (1 / 100) \<le> binade x" using x by (intro binade_mono) simp_all
  then have b: "- 1022 \<le> binade x" by (simp add: binade_cent)
  have e: "\<bar>fl x - x\<bar> \<le> x / 2 ^ 53" using x0 b by (rule fl_error)
  have "(of_int k :: rat) \<le> of_int 10000" using assms(2) by (simp only: of_int_le_iff)
  then have "x \<le> 100" by (simp add: x_def)
  then have "x / 2 ^ 53 < 1 / 200" by simp
  then have "\<bar>fl x - x\<bar> < 1 / 200" using e by simp
  then have "\<bar>fl x * 100 - x * 100\<bar> < 1 / 2" by (simp add: abs_if split: if_splits)
  moreover have "x * 100 = of_int k" by (simp add: x_def)
  ultimately have "\<bar>fl x * 100 - of_int k\<bar> < 1 / 2" by simp
  then have "round_half_even (fl x * 100) = k" by (rule rhe_near)
  then show ?thesis by (simp add: x_def)
qed

lemma round2_cents:
  assumes "0 \<le> k" "k \<le> 10000"
  shows "round2 (fl (of_int k / 100)) = fl (of_int k / 100)"
  by (simp add: round2_def cents_exact [OF assms])

lemma cents_range:
  assumes "0 \<le> k" "k \<le> 10000"
  shows "0 \<le> fl (of_int k / 100) \<and> fl (of_int k / 100) \<le> 100"
proof -
  have "(of_int 0 :: rat) \<le> of_int k" "(of_int k :: rat) \<le> of_int 10000"
    using assms by (simp_all only: of_int_le_iff)
  then have x: "(0 :: rat) \<le> of_int k / 100" "(of_int k :: rat) / 100 \<le> 100" by simp_all
  have "0 \<le> fl (of_int k / 100)" using x(1) by (rule fl_nonneg)
  moreover have "fl (of_int k / 100) \<le> fl 100" using x by (rule fl_mono)
  ultimately show ?thesis by (simp add: fl_hundred)
qed

lemma score_cents:
  "\<exists>k. 0 \<le> k \<and> k \<le> 10000 \<and> calculate_buddy_score u1 u2 sb ec = fl (of_int k / 100)"
proof -
  define r where "r = raw_score u1 u2 sb ec"
  define x where "x = fmul r 100"
  have r: "0 \<le> r" "r \<le> 1" using raw_score_bounds [of u1 u2 sb ec] by (simp_all add: r_def)
  have "0 \<le> r * 100" "r * 100 \<le> 100" using r by simp_all
  then have "0 \<le> fl (r * 100)" "fl (r * 100) \<le> fl 100" by (auto intro: fl_nonneg fl_mono)
  then have x: "0 \<le> x" "x \<le> 100" by (simp_all add: x_def fmul_def fl_hundred)
  then have "of_int 0 \<le> x * 100" "x * 100 \<le> of_int 10000" by simp_all
  then have "round_half_even (of_int 0) \<le> round_half_even (x * 100)"
    "round_half_even (x * 100) \<le> round_half_even (of_int 10000)" by (auto intro: rhe_mono)
  then have "0 \<le> round_half_even (x * 100)" "round_half_even (x * 100) \<le> 10000"
    by (simp_all only: rhe_of_int)
  moreover have "calculate_buddy_score u1 u2 sb ec = fl (of_int (round_half_even (x * 100)) / 100)"
    by (simp add: calculate_buddy_score_def round2_def x_def r_def)
  ultimately show ?thesis by blast
qed

text \<open>
  Claim C1. For every pair of profiles, every repository handle and every event-count map
  (given or absent), \<open>calculate_buddy_score\<close> returns a value between 0 and 100 that equals
  its own rounding to two decimal places.
\<close>

theorem score_range_two_decimals:
  "0 \<le> calculate_buddy_score user1 user2 sb event_counts
   \<and> calculate_buddy_score user1 user2 sb event_counts \<le> 100
   \<and> round2 (calculate_buddy_score user1 user2 sb event_counts)
       = calculate_buddy_score user1 user2 sb event_counts"
proof -
  obtain k where k: "0 \<le> k" "k \<le> 10000"
    "calculate_buddy_score user1 user2 sb event_counts = fl (of_int k / 100)"
    using score_cents by blast
  show ?thesis using cents_range [OF k(1,2)] round2_cents [OF k(1,2)] by (simp add: k(3))
qed

section \<open>Symmetry of the score\<close>

lemma sports_term_sym: "sports_term a b = sports_term b a"
  by (simp add: sports_term_def sports_branch_def jaccard_def Int_commute Un_commute conj_commute)

lemma goals_term_sym: "goals_term a b = goals_term b a"
  by (simp add: goals_term_def jaccard_def Int_commute Un_commute conj_commute)

lemma location_term_sym: "location_term a b = location_term b a"
  by (auto simp add: location_term_def Let_def Int_commute)

lemma age_term_sym: "age_term a b = age_term b a"
  by (auto simp add: age_term_def Let_def abs_minus_commute split: option.splits)

lemma activity_tier_sym: "activity_tier m n = activity_tier n m"
  by (simp add: activity_tier_def abs_minus_commute conj_commute)

lemma activity_term_sym: "activity_term u1 u2 sb ec = activity_term u2 u1 sb ec"
  by (simp add: activity_term_def activity_tier_sym split: option.splits)

text \<open>
  Claim C2. For all profiles A and B, every repository handle and every event-count map
  (given or absent), \<open>calculate_buddy_score(A, B, ...)\<close> equals
  \<open>calculate_buddy_score(B, A, ...)\<close>: each of the five factors is symmetric, and the
  factors are added in the same order.
\<close>

theorem score_symmetric:
  "calculate_buddy_score user1 user2 sb event_counts
     = calculate_buddy_score user2 user1 sb event_counts"
  unfolding calculate_buddy_score_def raw_score_def Let_def
  by (simp only: sports_term_sym [of "ids_of (sports user1)"]
        goals_term_sym [of "ids_of (goals user1)"] location_term_sym [of "loc_of user1"]
        age_term_sym [of "age user1"] activity_term_sym [of user1])

section \<open>The sports branches\<close>

text \<open>
  Claim C10, amended. The partial-credit branch of the sports chain (the one that adds 0.15)
  is never taken: its guard asks for two non-empty sets, which the first branch has already
  taken. The sports contribution is the Jaccard term when both sets are non-empty, 0.175 when
  both are empty, and nothing when exactly one is empty; it is never the 0.15 of the
  partial-credit branch. (The Jaccard term itself can be the float 0.15: see the
  counterexample.)
\<close>

theorem partial_branch_unreachable:
  "sports_branch a b \<noteq> Partial \<and>
   sports_term a b =
     (if a \<noteq> {} \<and> b \<noteq> {} then Some (fmul (jaccard a b) (fl (35 / 100)))
      else if a = {} \<and> b = {} then Some (fl (175 / 1000))
      else None)"
  by (auto simp add: sports_term_def sports_branch_def)

section \<open>Ranking\<close>

text \<open>
  Claim C6. The \<open>min_score\<close> argument has no effect: for the same subject, store and limit,
  any two values of \<open>min_score\<close> give the same list.
\<close>

theorem min_score_ignored:
  "find_potential_buddies user db limit m1 = find_potential_buddies user db limit m2"
  by (simp add: find_potential_buddies_def)

text \<open>
  Claim C7. When the read of the candidate pool raises, \<open>find_potential_buddies\<close> returns
  the empty list.
\<close>

theorem pool_failure_empty:
  "fails db ReadUsers \<Longrightarrow> find_potential_buddies user db limit min_score = []"
  by (simp add: find_potential_buddies_def potential_users_def split: option.splits)

theorem pool_failure_empty_witness:
  "fails (store [profile 2 [] None] [] {ReadUsers}) ReadUsers
   \<and> find_potential_buddies (profile 1 [] None) (store [profile 2 [] None] [] {ReadUsers})
        (Some 5) 0 = []"
  using pool_failure_empty [of "store [profile 2 [] None] [] {ReadUsers}" "profile 1 [] None" "Some 5" 0]
  by (simp add: store_def)

section \<open>Evaluating the service on examples\<close>

lemmas ex_defs = profile_def store_def ids_of_def List.map_filter_simps

lemmas score_defs = calculate_buddy_score_def raw_score_def add_term_def fadd_def fmul_def
  round2_def sports_term_def sports_branch_def goals_term_def location_term_def age_term_def
  activity_term_def loc_of_def

lemmas find_defs = find_potential_buddies_def potential_users_def existing_buddy_user_ids_def
  discoverable_users_def fetch_limit_def sports_by_user_def goals_by_user_def
  batch_event_counts_def group_by_user_def count_events_def set_affiliations_def
  score_entry_def sort_desc_def slice_to_def get_items_def get_count_def in_ids_def

lemma location_tier_example:
  "location_term (strip (lower ''Washington, DC'')) (strip (lower '' washington DC ''))
     = Some (fl (18 / 100))"
  by code_simp

section \<open>The score without data\<close>

lemma neutral_score:
  assumes "ids_of (sports user1) = {}" "ids_of (sports user2) = {}"
    and "ids_of (goals user1) = {}" "ids_of (goals user2) = {}"
    and "location user1 = None" "location user2 = None"
    and "age user1 = None" "age user2 = None"
  shows "calculate_buddy_score user1 user2 None None = 35"
  using assms by (simp add: score_defs fl_vals rhe_numeral)

text \<open>
  Claim C5, amended. For two profiles that both have no sports and both have no goals, with no
  location and no age on either and no activity data (no event-count map and no repository
  handle), the score is exactly 35.0. (Disjoint non-empty sport sets score 0 for sports, not
  the neutral 17.5: see the counterexample.)
\<close>

theorem no_data_score_35:
  assumes "ids_of (sports user1) = {}" "ids_of (sports user2) = {}"
    and "ids_of (goals user1) = {}" "ids_of (goals user2) = {}"
    and "location user1 = None" "location user2 = None"
    and "age user1 = None" "age user2 = None"
  shows "calculate_buddy_score user1 user2 None None = 35"
  using assms by (rule neutral_score)

theorem no_data_score_35_witness:
  "ids_of (sports (profile 1 [] None)) = {} \<and> ids_of (sports (profile 2 [] None)) = {}
   \<and> ids_of (goals (profile 1 [] None)) = {} \<and> ids_of (goals (profile 2 [] None)) = {}
   \<and> location (profile 1 [] None) = None \<and> location (profile 2 [] None) = None
   \<and> age (profile 1 [] None) = None \<and> age (profile 2 [] None) = None
   \<and> calculate_buddy_score (profile 1 [] None) (profile 2 [] None) None None = 35"
  using no_data_score_35 [of "profile 1 [] None" "profile 2 [] None"]
  by (simp add: ex_defs)

theorem disjoint_sports_counterexample:
  "ids_of (sports (profile 1 [1] None)) \<inter> ids_of (sports (profile 2 [2] None)) = {}
   \<and> ids_of (goals (profile 1 [1] None)) \<inter> ids_of (goals (profile 2 [2] None)) = {}
   \<and> location (profile 1 [1] None) = None \<and> location (profile 2 [2] None) = None
   \<and> age (profile 1 [1] None) = None \<and> age (profile 2 [2] None) = None
   \<and> calculate_buddy_score (profile 1 [1] None) (profile 2 [2] None) None None = 35 / 2"
  by (simp add: ex_defs score_defs jaccard_def int_truediv_def fl_zero fl_vals rhe_numeral)

section \<open>Exclusion, order and limit of the ranking\<close>

lemma discoverable_users_uid:
  "u \<in> set (discoverable_users db i) \<Longrightarrow> uid u \<noteq> None \<and> uid u \<noteq> Some i"
  by (simp add: discoverable_users_def)

lemma potential_users_subset:
  "set (potential_users db i limit) \<subseteq> set (discoverable_users db i)"
  by (auto simp add: potential_users_def Let_def dest: in_set_takeD)

lemma potential_users_uid:
  "u \<in> set (potential_users db i limit) \<Longrightarrow> uid u \<noteq> None \<and> uid u \<noteq> Some i"
  using potential_users_subset discoverable_users_uid by blast

lemma potential_users_not_existing:
  assumes "u \<in> set (potential_users db i limit)" "uid u = Some j"
  shows "j \<notin> existing_buddy_user_ids db i"
proof (cases "existing_buddy_user_ids db i = {}")
  case True
  then show ?thesis by simp
next
  case False
  then show ?thesis using assms
    by (auto simp add: potential_users_def Let_def split: if_splits)
qed

lemma map_filter_uid_empty:
  assumes "\<And>u. u \<in> set us \<Longrightarrow> uid u \<noteq> None"
  shows "List.map_filter uid us = [] \<longleftrightarrow> us = []"
proof (cases us)
  case Nil
  then show ?thesis by (simp add: List.map_filter_simps)
next
  case (Cons a list)
  then have "uid a \<noteq> None" using assms by simp
  then obtain y where "uid a = Some y" by blast
  then show ?thesis using Cons by (simp add: List.map_filter_simps)
qed

lemma potential_ids_empty:
  "List.map_filter uid (potential_users db i limit) = [] \<longleftrightarrow> potential_users db i limit = []"
  by (rule map_filter_uid_empty) (simp add: potential_users_uid)

lemma set_sort_desc: "set (sort_desc xs) = set xs"
  by (simp add: sort_desc_def)


lemma length_sort_desc: "length (sort_desc xs) = length xs"
  by (simp add: sort_desc_def)

lemma sorted_sort_desc: "sorted_wrt (\<lambda>a b. score b \<le> score a) (sort_desc xs)"
proof -
  have "sorted (map score (sort_key score (rev xs)))" by (rule sorted_sort_key)
  then have "sorted_wrt (\<lambda>a b. score a \<le> score b) (sort_key score (rev xs))"
    by (simp add: sorted_map)
  then show ?thesis by (simp add: sort_desc_def sorted_wrt_rev)
qed

lemma slice_to_take: "\<exists>n. slice_to k xs = take n xs"
  by (auto simp add: slice_to_def)

lemma set_slice_to: "set (slice_to k xs) \<subseteq> set xs"
  using slice_to_take [of k xs] by (auto dest: in_set_takeD)

lemma uid_score_entry: "uid (entry_user (score_entry user db ec (set_affiliations s g u))) = uid u"
  by (simp add: score_entry_def set_affiliations_def)

lemma ranking_Nil: "potential_users db i limit = [] \<Longrightarrow> ranking user db i limit = []"
  by (simp add: ranking_def sort_desc_def List.map_filter_simps)

lemma find_ranking:
  assumes "uid user = Some i" "i \<noteq> 0"
  shows "find_potential_buddies user db limit ms =
    (case limit of None \<Rightarrow> ranking user db i limit
     | Some k \<Rightarrow> if k \<noteq> 0 then slice_to k (ranking user db i limit) else ranking user db i limit)"
proof (cases "potential_users db i limit = []")
  case True
  then have "ranking user db i limit = []" by (rule ranking_Nil)
  then show ?thesis using assms True
    by (cases limit)
       (auto simp add: find_potential_buddies_def Let_def slice_to_def List.map_filter_simps)
next
  case False
  then have "List.map_filter uid (potential_users db i limit) \<noteq> []"
    by (simp add: potential_ids_empty)
  then show ?thesis using assms
    by (cases limit) (auto simp add: find_potential_buddies_def ranking_def Let_def)
qed

lemma set_find_subset:
  assumes "uid user = Some i"
  shows "set (find_potential_buddies user db limit ms) \<subseteq> set (ranking user db i limit)"
proof (cases "i = 0")
  case True
  then show ?thesis using assms by (simp add: find_potential_buddies_def)
next
  case False
  show ?thesis using set_slice_to [of _ "ranking user db i limit"]
    by (cases limit) (auto simp add: find_ranking [OF assms False])
qed

lemma ranking_entries:
  assumes "e \<in> set (ranking user db i limit)"
  shows "\<exists>u \<in> set (potential_users db i limit). uid (entry_user e) = uid u"
  using assms by (auto simp add: ranking_def Let_def set_sort_desc uid_score_entry)

lemma find_entries:
  assumes "uid user = Some i" "e \<in> set (find_potential_buddies user db limit ms)"
  shows "\<exists>u \<in> set (potential_users db i limit). uid (entry_user e) = uid u"
  using set_find_subset [OF assms(1)] assms(2) ranking_entries by blast

lemma in_existing_1:
  assumes "\<not> fails db ReadBuddies1" "(i, j) \<in> set (buddies_tbl db)"
  shows "j \<in> existing_buddy_user_ids db i"
  using assms by (force simp add: existing_buddy_user_ids_def Let_def)

lemma in_existing_2:
  assumes "\<not> fails db ReadBuddies1" "\<not> fails db ReadBuddies2" "(j, i) \<in> set (buddies_tbl db)"
  shows "j \<in> existing_buddy_user_ids db i"
  using assms by (force simp add: existing_buddy_user_ids_def Let_def)

text \<open>
  Claim C3, amended. For a subject with id \<open>i\<close>, no returned entry has the id \<open>i\<close>. When
  the first relationship read does not raise, no entry has an id \<open>j\<close> with a relationship
  \<open>(i, j)\<close>; when neither relationship read raises, no entry has an id \<open>j\<close> with a
  relationship \<open>(j, i)\<close>. (When a relationship read raises, the ids it would have
  returned are not excluded: see the counterexample.)
\<close>

theorem no_self_no_existing:
  assumes "uid user = Some i" "e \<in> set (find_potential_buddies user db limit ms)"
  shows "uid (entry_user e) \<noteq> Some i
    \<and> (\<not> fails db ReadBuddies1 \<longrightarrow>
         (\<forall>j. (i, j) \<in> set (buddies_tbl db) \<longrightarrow> uid (entry_user e) \<noteq> Some j))
    \<and> (\<not> fails db ReadBuddies1 \<and> \<not> fails db ReadBuddies2 \<longrightarrow>
         (\<forall>j. (j, i) \<in> set (buddies_tbl db) \<longrightarrow> uid (entry_user e) \<noteq> Some j))"
proof -
  obtain u where u: "u \<in> set (potential_users db i limit)" "uid (entry_user e) = uid u"
    using find_entries [OF assms] by blast
  have "uid u \<noteq> Some i" using potential_users_uid [OF u(1)] by simp
  moreover have "uid u \<noteq> Some j" if "j \<in> existing_buddy_user_ids db i" for j
    using potential_users_not_existing [OF u(1)] that by blast
  ultimately show ?thesis using in_existing_1 in_existing_2 by (auto simp add: u(2))
qed

text \<open>
  Claim C4, amended. The returned list is always sorted non-increasing by score. For a limit
  \<open>k \<ge> 1\<close> it has exactly \<open>min(k, n)\<close> entries, \<open>n\<close> being the size of the pool fetched
  under the cap \<open>k + 20\<close> (existing relationships removed). When the store holds at most
  \<open>min(k + 20, 300)\<close> active discoverable users other than the subject, so that neither
  fetch cap cuts the pool, the list is the first \<open>k\<close> entries of the list returned without
  a limit.
\<close>

theorem sorted_and_limited:
  "sorted_wrt (\<lambda>a b. score b \<le> score a) (find_potential_buddies user db limit ms)
   \<and> (uid user = Some i \<and> i \<noteq> 0 \<and> 1 \<le> k \<longrightarrow>
        length (find_potential_buddies user db (Some k) ms)
          = min (nat k) (length (potential_users db i (Some k))))
   \<and> (uid user = Some i \<and> 1 \<le> k \<and> int (length (discoverable_users db i)) \<le> min (k + 20) 300 \<longrightarrow>
        find_potential_buddies user db (Some k) ms
          = take (nat k) (find_potential_buddies user db None ms))"
proof (intro conjI impI)
  show "sorted_wrt (\<lambda>a b. score b \<le> score a) (find_potential_buddies user db limit ms)"
  proof (cases "uid user")
    case None
    then show ?thesis by (simp add: find_potential_buddies_def)
  next
    case (Some j)
    show ?thesis
    proof (cases "j = 0")
      case True
      then show ?thesis using Some by (simp add: find_potential_buddies_def)
    next
      case False
      have s: "sorted_wrt (\<lambda>a b. score b \<le> score a) (ranking user db j limit)"
        by (simp add: ranking_def Let_def sorted_sort_desc)
      have "sorted_wrt (\<lambda>a b. score b \<le> score a) (slice_to m (ranking user db j limit))" for m
        using slice_to_take [of m "ranking user db j limit"] s by (auto simp add: sorted_wrt_take)
      then show ?thesis using s by (cases limit) (auto simp add: find_ranking [OF Some False])
    qed
  qed
next
  assume a: "uid user = Some i \<and> i \<noteq> 0 \<and> 1 \<le> k"
  then have "find_potential_buddies user db (Some k) ms = take (nat k) (ranking user db i (Some k))"
    by (simp add: find_ranking slice_to_def)
  then show "length (find_potential_buddies user db (Some k) ms)
          = min (nat k) (length (potential_users db i (Some k)))"
    by (simp add: ranking_def Let_def length_sort_desc)
next
  assume a: "uid user = Some i \<and> 1 \<le> k \<and> int (length (discoverable_users db i)) \<le> min (k + 20) 300"
  show "find_potential_buddies user db (Some k) ms
          = take (nat k) (find_potential_buddies user db None ms)"
  proof (cases "i = 0")
    case True
    then show ?thesis using a by (simp add: find_potential_buddies_def)
  next
    case False
    have "length (discoverable_users db i) \<le> nat (fetch_limit (Some k))"
      "length (discoverable_users db i) \<le> nat (fetch_limit None)"
      using a by (simp_all add: fetch_limit_def) linarith
    then have "take (nat (fetch_limit (Some k))) (discoverable_users db i) = discoverable_users db i"
      "take (nat (fetch_limit None)) (discoverable_users db i) = discoverable_users db i"
      by simp_all
    then have "potential_users db i (Some k) = potential_users db i None"
      by (simp add: potential_users_def Let_def)
    then have "ranking user db i (Some k) = ranking user db i None"
      by (simp add: ranking_def)
    then show ?thesis using a False by (simp add: find_ranking slice_to_def)
  qed
qed

section \<open>Failure of the activity-count read\<close>



lemma get_count_empty: "get_count Map.empty u = 0"
  by (simp add: get_count_def split: option.splits)





section \<open>Invalid input\<close>

lemma activity_term_uids:
  assumes "\<And>m. ec = Some m \<Longrightarrow>
      get_count m a = get_count m (uid u1) \<and> get_count m b = get_count m (uid u2)"
    and "\<And>d. ec = None \<Longrightarrow> sb = Some d \<Longrightarrow>
      count_approved d a = count_approved d (uid u1) \<and> count_approved d b = count_approved d (uid u2)"
  shows "activity_term (u1\<lparr>uid := a\<rparr>) (u2\<lparr>uid := b\<rparr>) sb ec = activity_term u1 u2 sb ec"
  using assms by (cases ec; cases sb) (auto simp add: activity_term_def split: option.splits)

lemma score_uids:
  assumes "activity_term (u1\<lparr>uid := a\<rparr>) (u2\<lparr>uid := b\<rparr>) sb ec = activity_term u1 u2 sb ec"
  shows "calculate_buddy_score (u1\<lparr>uid := a\<rparr>) (u2\<lparr>uid := b\<rparr>) sb ec
       = calculate_buddy_score u1 u2 sb ec"
  using assms by (simp add: calculate_buddy_score_def raw_score_def loc_of_def)

text \<open>
  Claim C9, amended. Ranking for a subject whose id is missing or 0 returns the empty list,
  whatever the store holds. \<open>calculate_buddy_score\<close> has no self-comparison check: the two
  ids are never compared with each other and enter the score only through the activity counts
  looked up for them (in the event-count map, or by the repository fallback), so two profiles
  with the same id are scored like any other pair whose ids have the same counts. The refusal
  of a self-request is made by the \<open>create_buddy\<close> endpoint, which answers 400 when
  \<open>user2_id\<close> is the caller's id.
\<close>

theorem no_id_no_ranking_no_self_check:
  "(uid user = None \<or> uid user = Some 0 \<longrightarrow> find_potential_buddies user db limit ms = [])
   \<and> ((\<forall>m. event_counts = Some m \<longrightarrow>
           get_count m a = get_count m (uid user1) \<and> get_count m b = get_count m (uid user2))
        \<and> (\<forall>d. event_counts = None \<and> sb = Some d \<longrightarrow>
           count_approved d a = count_approved d (uid user1)
           \<and> count_approved d b = count_approved d (uid user2))
        \<longrightarrow> calculate_buddy_score (user1\<lparr>uid := a\<rparr>) (user2\<lparr>uid := b\<rparr>) sb event_counts
            = calculate_buddy_score user1 user2 sb event_counts)
   \<and> (uid user = Some i \<and> i \<noteq> 0 \<longrightarrow>
        create_buddy_checks user i = Some (HTTPException 400 ''Cannot buddy with yourself''))"
proof (intro conjI impI)
  assume "uid user = None \<or> uid user = Some 0"
  then show "find_potential_buddies user db limit ms = []"
    by (auto simp add: find_potential_buddies_def)
next
  assume h: "(\<forall>m. event_counts = Some m \<longrightarrow>
           get_count m a = get_count m (uid user1) \<and> get_count m b = get_count m (uid user2))
        \<and> (\<forall>d. event_counts = None \<and> sb = Some d \<longrightarrow>
           count_approved d a = count_approved d (uid user1)
           \<and> count_approved d b = count_approved d (uid user2))"
  have "activity_term (user1\<lparr>uid := a\<rparr>) (user2\<lparr>uid := b\<rparr>) sb event_counts
      = activity_term user1 user2 sb event_counts"
    using h by (intro activity_term_uids) blast+
  then show "calculate_buddy_score (user1\<lparr>uid := a\<rparr>) (user2\<lparr>uid := b\<rparr>) sb event_counts
            = calculate_buddy_score user1 user2 sb event_counts"
    by (rule score_uids)
next
  assume "uid user = Some i \<and> i \<noteq> 0"
  then show "create_buddy_checks user i = Some (HTTPException 400 ''Cannot buddy with yourself'')"
    by (simp add: create_buddy_checks_def)
qed

theorem no_id_no_ranking_no_self_check_witness:
  "(uid (profile 0 [] None) = None \<or> uid (profile 0 [] None) = Some 0)
   \<and> find_potential_buddies (profile 0 [] None) (store [profile 2 [] None] [] {}) None 0 = []
   \<and> get_count two_counts (Some 1) = get_count two_counts (uid (profile 1 [] None))
   \<and> get_count two_counts (Some 1) = get_count two_counts (uid (profile 2 [] None))
   \<and> calculate_buddy_score ((profile 1 [] None)\<lparr>uid := Some 1\<rparr>) ((profile 2 [] None)\<lparr>uid := Some 1\<rparr>)
         (Some (store [] [] {})) (Some two_counts)
       = calculate_buddy_score (profile 1 [] None) (profile 2 [] None)
           (Some (store [] [] {})) (Some two_counts)
   \<and> uid (profile 1 [] None) = Some 1 \<and> (1 :: int) \<noteq> 0
   \<and> create_buddy_checks (profile 1 [] None) 1
       = Some (HTTPException 400 ''Cannot buddy with yourself'')"
proof -
  have c: "get_count two_counts (Some 1) = get_count two_counts (uid (profile 1 [] None))"
    "get_count two_counts (Some 1) = get_count two_counts (uid (profile 2 [] None))"
    by (simp_all add: two_counts_def get_count_def profile_def)
  have 1: "find_potential_buddies (profile 0 [] None) (store [profile 2 [] None] [] {}) None 0 = []"
    using no_id_no_ranking_no_self_check
      [of "profile 0 [] None" "store [profile 2 [] None] [] {}" None 0]
    by (simp add: profile_def)
  have 2: "calculate_buddy_score ((profile 1 [] None)\<lparr>uid := Some 1\<rparr>)
         ((profile 2 [] None)\<lparr>uid := Some 1\<rparr>) (Some (store [] [] {})) (Some two_counts)
       = calculate_buddy_score (profile 1 [] None) (profile 2 [] None)
           (Some (store [] [] {})) (Some two_counts)"
    using no_id_no_ranking_no_self_check
      [of _ _ _ _ "Some two_counts" "Some 1" "profile 1 [] None" "Some 1" "profile 2 [] None"
          "Some (store [] [] {})"] c
    by simp
  have 3: "create_buddy_checks (profile 1 [] None) 1
       = Some (HTTPException 400 ''Cannot buddy with yourself'')"
    using no_id_no_ranking_no_self_check [of "profile 1 [] None" _ _ _ _ _ _ _ _ _ 1]
    by (simp add: profile_def)
  show ?thesis using c 1 2 3 by (simp add: profile_def)
qed

theorem self_score_counterexample:
  "uid (profile 1 [] None) = uid (profile 1 [] None)
   \<and> calculate_buddy_score (profile 1 [] None) (profile 1 [] None) None None = 35"
  by (simp add: neutral_score ex_defs)

section \<open>Witnesses and counterexamples of the ranking claims\<close>

lemma score_40:
  assumes "ids_of (sports user1) = {}" "ids_of (sports user2) = {}"
    and "ids_of (goals user1) = {}" "ids_of (goals user2) = {}"
    and "location user2 = None" "age user1 = None"
  shows "calculate_buddy_score user1 user2 sb (Some Map.empty) = 40"
  using assms by (simp add: score_defs get_count_empty activity_tier_def fl_vals rhe_numeral)

lemma score_55:
  assumes "ids_of (sports user1) = {}" "ids_of (sports user2) = {}"
    and "ids_of (goals user1) = {}" "ids_of (goals user2) = {}"
    and "location user1 = Some ''a''" "location user2 = Some ''a''" "age user1 = None"
  shows "calculate_buddy_score user1 user2 sb (Some Map.empty) = 55"
  using assms
  by (simp add: score_defs get_count_empty activity_tier_def fl_vals rhe_numeral
        strip_def lower_def lower_char_def is_space_def)

lemma crowd_limit_1:
  "map (\<lambda>e. uid (entry_user e))
     (find_potential_buddies (profile 1 [] (Some ''a'')) (store crowd [] {}) (Some 1) 0) = [Some 2]"
  by (simp add: crowd_def find_defs ex_defs score_40 score_55)

lemma crowd_no_limit:
  "map (\<lambda>e. uid (entry_user e))
     (find_potential_buddies (profile 1 [] (Some ''a'')) (store crowd [] {}) None 0)
   = [Some 23, Some 2, Some 3, Some 4, Some 5, Some 6, Some 7, Some 8, Some 9, Some 10, Some 11,
      Some 12, Some 13, Some 14, Some 15, Some 16, Some 17, Some 18, Some 19, Some 20, Some 21,
      Some 22]"
  by (simp add: crowd_def find_defs ex_defs score_40 score_55)

theorem limit_prefix_counterexample:
  "length (find_potential_buddies (profile 1 [] None) (store [profile 2 [] None] [] {}) (Some 0) 0) = 1
   \<and> \<not> prefix (find_potential_buddies (profile 1 [] (Some ''a'')) (store crowd [] {}) (Some 1) 0)
          (find_potential_buddies (profile 1 [] (Some ''a'')) (store crowd [] {}) None 0)"
proof
  show "length (find_potential_buddies (profile 1 [] None) (store [profile 2 [] None] [] {}) (Some 0) 0) = 1"
    by (simp add: find_defs ex_defs)
  show "\<not> prefix (find_potential_buddies (profile 1 [] (Some ''a'')) (store crowd [] {}) (Some 1) 0)
          (find_potential_buddies (profile 1 [] (Some ''a'')) (store crowd [] {}) None 0)"
  proof
    assume "prefix (find_potential_buddies (profile 1 [] (Some ''a'')) (store crowd [] {}) (Some 1) 0)
          (find_potential_buddies (profile 1 [] (Some ''a'')) (store crowd [] {}) None 0)"
    then have "prefix (map (\<lambda>e. uid (entry_user e))
          (find_potential_buddies (profile 1 [] (Some ''a'')) (store crowd [] {}) (Some 1) 0))
        (map (\<lambda>e. uid (entry_user e))
          (find_potential_buddies (profile 1 [] (Some ''a'')) (store crowd [] {}) None 0))"
      by (rule map_mono_prefix)
    then show False by (simp only: crowd_limit_1 crowd_no_limit) simp
  qed
qed

theorem sorted_and_limited_witness:
  "uid (profile 1 [] None) = Some 1 \<and> (1 :: int) \<noteq> 0 \<and> (1 :: int) \<le> 2
   \<and> int (length (discoverable_users (store [profile 2 [] None, profile 3 [] None] [] {}) 1))
        \<le> min (2 + 20) 300
   \<and> sorted_wrt (\<lambda>a b. score b \<le> score a)
        (find_potential_buddies (profile 1 [] None)
           (store [profile 2 [] None, profile 3 [] None] [] {}) (Some 2) 0)
   \<and> length (find_potential_buddies (profile 1 [] None)
           (store [profile 2 [] None, profile 3 [] None] [] {}) (Some 2) 0)
       = min (nat 2) (length (potential_users (store [profile 2 [] None, profile 3 [] None] [] {}) 1 (Some 2)))
   \<and> find_potential_buddies (profile 1 [] None)
           (store [profile 2 [] None, profile 3 [] None] [] {}) (Some 2) 0
       = take (nat 2) (find_potential_buddies (profile 1 [] None)
           (store [profile 2 [] None, profile 3 [] None] [] {}) None 0)"
proof -
  let ?db = "store [profile 2 [] None, profile 3 [] None] [] {}"
  have h: "uid (profile 1 [] None) = Some 1" "(1 :: int) \<noteq> 0" "(1 :: int) \<le> 2"
    "int (length (discoverable_users ?db 1)) \<le> min (2 + 20) 300"
    by (simp_all add: discoverable_users_def ex_defs)
  show ?thesis
    using h sorted_and_limited [of "profile 1 [] None" ?db "Some 2" 0 1 2] by blast
qed

lemma four_users_ranking:
  "map (\<lambda>e. uid (entry_user e))
     (find_potential_buddies (profile 1 [] None)
        (store [profile 1 [] None, profile 2 [] None, profile 3 [] None, profile 4 [] None]
           [(1, 2), (3, 1)] {}) None 0) = [Some 4]"
  by (simp add: find_defs ex_defs)

theorem no_self_no_existing_witness:
  "uid (profile 1 [] None) = Some 1
   \<and> hd (find_potential_buddies (profile 1 [] None)
          (store [profile 1 [] None, profile 2 [] None, profile 3 [] None, profile 4 [] None]
             [(1, 2), (3, 1)] {}) None 0)
       \<in> set (find_potential_buddies (profile 1 [] None)
          (store [profile 1 [] None, profile 2 [] None, profile 3 [] None, profile 4 [] None]
             [(1, 2), (3, 1)] {}) None 0)
   \<and> \<not> fails (store [profile 1 [] None, profile 2 [] None, profile 3 [] None, profile 4 [] None]
          [(1, 2), (3, 1)] {}) ReadBuddies1
   \<and> \<not> fails (store [profile 1 [] None, profile 2 [] None, profile 3 [] None, profile 4 [] None]
          [(1, 2), (3, 1)] {}) ReadBuddies2
   \<and> (1, 2) \<in> set (buddies_tbl
          (store [profile 1 [] None, profile 2 [] None, profile 3 [] None, profile 4 [] None]
             [(1, 2), (3, 1)] {}))
   \<and> (3, 1) \<in> set (buddies_tbl
          (store [profile 1 [] None, profile 2 [] None, profile 3 [] None, profile 4 [] None]
             [(1, 2), (3, 1)] {}))
   \<and> uid (entry_user (hd (find_potential_buddies (profile 1 [] None)
          (store [profile 1 [] None, profile 2 [] None, profile 3 [] None, profile 4 [] None]
             [(1, 2), (3, 1)] {}) None 0))) \<noteq> Some 1
   \<and> uid (entry_user (hd (find_potential_buddies (profile 1 [] None)
          (store [profile 1 [] None, profile 2 [] None, profile 3 [] None, profile 4 [] None]
             [(1, 2), (3, 1)] {}) None 0))) \<noteq> Some 2
   \<and> uid (entry_user (hd (find_potential_buddies (profile 1 [] None)
          (store [profile 1 [] None, profile 2 [] None, profile 3 [] None, profile 4 [] None]
             [(1, 2), (3, 1)] {}) None 0))) \<noteq> Some 3"
proof -
  let ?db = "store [profile 1 [] None, profile 2 [] None, profile 3 [] None, profile 4 [] None]
             [(1, 2), (3, 1)] {}"
  let ?r = "find_potential_buddies (profile 1 [] None) ?db None 0"
  have "?r \<noteq> []" using four_users_ranking by auto
  then have e: "hd ?r \<in> set ?r" by simp
  have u: "uid (profile 1 [] None) = Some 1" by (simp add: profile_def)
  have b: "\<not> fails ?db ReadBuddies1" "\<not> fails ?db ReadBuddies2"
    "(1, 2) \<in> set (buddies_tbl ?db)" "(3, 1) \<in> set (buddies_tbl ?db)"
    by (simp_all add: store_def)
  show ?thesis using no_self_no_existing [OF u e] e u b by blast
qed

theorem existing_buddy_counterexample:
  "(1, 2) \<in> set (buddies_tbl (store [profile 2 [] None] [(1, 2)] {ReadBuddies1}))
   \<and> map (uid \<circ> entry_user)
        (find_potential_buddies (profile 1 [] None)
           (store [profile 2 [] None] [(1, 2)] {ReadBuddies1}) None 0) = [Some 2]"
  by (simp add: find_defs ex_defs)



section \<open>A Jaccard term equal to 0.15\<close>

text \<open>
  With three of seven sports shared the Jaccard branch adds \<open>(3 / 7) * 0.35\<close>, which is the
  float \<open>0.15\<close>.
\<close>

theorem jaccard_term_015_counterexample:
  "sports_branch (ids_of (sports (profile 1 [1, 2, 3, 4, 5] None)))
       (ids_of (sports (profile 2 [1, 2, 3, 6, 7] None))) = Jaccard
   \<and> sports_term (ids_of (sports (profile 1 [1, 2, 3, 4, 5] None)))
       (ids_of (sports (profile 2 [1, 2, 3, 6, 7] None))) = Some (fl (15 / 100))"
proof -
  let ?a = "ids_of (sports (profile 1 [1, 2, 3, 4, 5] None))"
  let ?b = "ids_of (sports (profile 2 [1, 2, 3, 6, 7] None))"
  have a: "?a = {1, 2, 3, 4, 5}" and b: "?b = {1, 2, 3, 6, 7}"
    by (simp_all add: ex_defs)
  have ne: "?a \<noteq> {}" "?b \<noteq> {}" "?a \<union> ?b \<noteq> {}"
    by (simp_all add: a b)
  have i: "card (?a \<inter> ?b) = 3" by (simp add: a b)
  have "?a \<union> ?b = {1, 2, 3, 4, 5, 6, 7}" by (auto simp add: a b)
  then have u: "card (?a \<union> ?b) = 7" by simp
  show ?thesis
    by (simp add: sports_term_def sports_branch_def jaccard_def int_truediv_def fmul_def
          ne i u fl_vals)
qed

end
